theory Spec2Isabelle
  imports Main "HOL-Library.List_Lexorder" "HOL-Library.Char_ord"
begin

section \<open>The descriptors read by the file generator\<close>

text \<open>
  \<^verbatim>\<open>protoc/file.cc\<close> drives the generation of one Lisp file from one
  \<^verbatim>\<open>FileDescriptor\<close>. The descriptors belong to the protocol buffer library; a
  descriptor is modelled as a record of exactly the attributes that \<^verbatim>\<open>file.cc\<close> and
  the generators it calls read from it.

  The entity generators (\<^verbatim>\<open>enum.h\<close>, \<^verbatim>\<open>message.h\<close>, \<^verbatim>\<open>service.h\<close>,
  \<^verbatim>\<open>field.h\<close>) and \<^verbatim>\<open>names.h\<close> are not among the sources at hand. What they report
  for a descriptor (the symbols to export, the packages a message touches) is carried by
  the descriptor as a field, so that it is a parameter of everything below.
\<close>

datatype Syntax = SYNTAX_UNKNOWN | SYNTAX_PROTO2 | SYNTAX_PROTO3

record EnumDescriptor =
  enum_full_name :: string
  enum_symbols :: "string list"
    \<comment> \<open>the symbols \<^verbatim>\<open>EnumGenerator::AddExports\<close> reports for this enum\<close>

record Descriptor =
  message_full_name :: string
  message_symbols :: "string list"
    \<comment> \<open>the symbols \<^verbatim>\<open>MessageGenerator::AddExports\<close> reports for this message\<close>
  message_packages :: "string list"
    \<comment> \<open>the packages \<^verbatim>\<open>MessageGenerator::AddPackages\<close> inserts, in insertion order\<close>

record FieldDescriptor =
  field_full_name :: string

record ServiceDescriptor =
  service_full_name :: string
  service_symbols :: "string list"
    \<comment> \<open>the symbols \<^verbatim>\<open>ServiceGenerator::AddExports\<close> reports for this service\<close>
  service_rpc_symbols :: "string list"
    \<comment> \<open>the symbols \<^verbatim>\<open>ServiceGenerator::AddRpcExports\<close> reports for this service\<close>

record FileDescriptor =
  file_name :: string            \<comment> \<open>\<^verbatim>\<open>file->name()\<close>\<close>
  file_package :: string         \<comment> \<open>\<^verbatim>\<open>file->package()\<close>\<close>
  file_syntax :: Syntax          \<comment> \<open>\<^verbatim>\<open>file->syntax()\<close>\<close>
  file_dependency :: "string list"
    \<comment> \<open>\<^verbatim>\<open>file->dependency(i)->name()\<close>, for \<^verbatim>\<open>i\<close> below \<^verbatim>\<open>dependency_count()\<close>\<close>
  file_enum_type :: "EnumDescriptor list"
  file_message_type :: "Descriptor list"
  file_extension :: "FieldDescriptor list"
  file_service :: "ServiceDescriptor list"
  file_DebugString :: string     \<comment> \<open>\<^verbatim>\<open>file->DebugString()\<close>\<close>

definition dependency_count :: "FileDescriptor \<Rightarrow> nat" where
  "dependency_count file = length (file_dependency file)"

definition enum_type_count :: "FileDescriptor \<Rightarrow> nat" where
  "enum_type_count file = length (file_enum_type file)"

definition message_type_count :: "FileDescriptor \<Rightarrow> nat" where
  "message_type_count file = length (file_message_type file)"

definition extension_count :: "FileDescriptor \<Rightarrow> nat" where
  "extension_count file = length (file_extension file)"

definition service_count :: "FileDescriptor \<Rightarrow> nat" where
  "service_count file = length (file_service file)"


section \<open>Library operations on strings and string sets\<close>

text \<open>
  \<^verbatim>\<open>std::string::find_last_of\<close> and \<^verbatim>\<open>rfind\<close> return the greatest index whose
  character qualifies, or \<^verbatim>\<open>npos\<close> (here \<open>None\<close>).
\<close>

fun find_last :: "('a \<Rightarrow> bool) \<Rightarrow> 'a list \<Rightarrow> nat option" where
  "find_last P [] = None"
| "find_last P (x # xs) =
     (case find_last P xs of
        Some i \<Rightarrow> Some (Suc i)
      | None \<Rightarrow> if P x then Some 0 else None)"

definition find_last_of :: "string \<Rightarrow> string \<Rightarrow> nat option" where
  "find_last_of s chars = find_last (\<lambda>c. c \<in> set chars) s"

definition rfind :: "string \<Rightarrow> char \<Rightarrow> nat option" where
  "rfind s c = find_last (\<lambda>d. d = c) s"

text \<open>
  \<^verbatim>\<open>s.erase(pos, len)\<close> removes \<^verbatim>\<open>len\<close> characters from \<^verbatim>\<open>pos\<close> on, and
  \<^verbatim>\<open>s.erase(pos)\<close> everything from \<^verbatim>\<open>pos\<close> on. Both calls of the constructor pass
  a position inside the string, so \<^verbatim>\<open>std::out_of_range\<close> cannot be thrown.
\<close>

definition erase :: "string \<Rightarrow> nat \<Rightarrow> nat \<Rightarrow> string" where
  "erase s pos len = take pos s @ drop (pos + len) s"

definition erase_from :: "string \<Rightarrow> nat \<Rightarrow> string" where
  "erase_from s pos = take pos s"

text \<open>
  Modelled from the spec: \<^verbatim>\<open>StrToLower\<close> is declared outside \<^verbatim>\<open>file.cc\<close>; the
  specification calls its effect case normalisation. It is taken to lower the ASCII
  capitals and to leave every other byte alone.
\<close>

definition ascii_tolower :: "char \<Rightarrow> char" where
  "ascii_tolower c =
     (if CHR ''A'' \<le> c \<and> c \<le> CHR ''Z'' then char_of (of_char c + (32::nat)) else c)"

definition StrToLower :: "string \<Rightarrow> string" where
  "StrToLower s = map ascii_tolower s"

text \<open>
  A \<^verbatim>\<open>std::set<std::string>\<close> is kept as the list of its elements in iteration
  order: ascending in the byte-wise lexicographic order of \<^verbatim>\<open>std::string\<close>, each
  element once. \<^verbatim>\<open>insert\<close> leaves the set alone when the element is there.
\<close>

definition set_insert :: "string \<Rightarrow> string list \<Rightarrow> string list" where
  "set_insert x s = (if x \<in> set s then s else insort x s)"


section \<open>The printer and the entity generators\<close>

text \<open>
  \<^verbatim>\<open>io::Printer\<close> is an append-only sink of the protocol buffer library. The printer
  is modelled by the sequence of calls it has received: that sequence is all
  \<^verbatim>\<open>file.cc\<close> decides, and the text is a function of it.
\<close>

datatype EnumGenerator = EnumGenerator EnumDescriptor
datatype MessageGenerator = MessageGenerator Descriptor
datatype ServiceGenerator = ServiceGenerator ServiceDescriptor

datatype call =
    PRINT string "(string \<times> string) list"
      \<comment> \<open>\<^verbatim>\<open>Print(text, name, value, ...)\<close>: a template and its variables\<close>
  | PRINT_RAW string
  | INDENT
  | OUTDENT
  | GENERATE_ENUM EnumGenerator
  | GENERATE_MESSAGE MessageGenerator
  | GENERATE_EXTENSION FieldDescriptor FileDescriptor
  | GENERATE_SERVICE ServiceGenerator

type_synonym Printer = "call list"

definition Print :: "Printer \<Rightarrow> string \<Rightarrow> (string \<times> string) list \<Rightarrow> Printer" where
  "Print printer text vars = printer @ [PRINT text vars]"

definition PrintRaw :: "Printer \<Rightarrow> string \<Rightarrow> Printer" where
  "PrintRaw printer data = printer @ [PRINT_RAW data]"

definition Indent :: "Printer \<Rightarrow> Printer" where
  "Indent printer = printer @ [INDENT]"

definition Outdent :: "Printer \<Rightarrow> Printer" where
  "Outdent printer = printer @ [OUTDENT]"

text \<open>
  Modelled from the spec: the classes \<^verbatim>\<open>EnumGenerator\<close>, \<^verbatim>\<open>MessageGenerator\<close> and
  \<^verbatim>\<open>ServiceGenerator\<close> and the function \<^verbatim>\<open>GenerateExtension\<close> are missing from the
  sources. \<^verbatim>\<open>Generate\<close> writes the declaration of its entity to the printer, which
  the sequence of calls records as one entry. \<^verbatim>\<open>AddExports\<close> and
  \<^verbatim>\<open>AddRpcExports\<close> append the symbols of the entity to the vector they are given,
  and \<^verbatim>\<open>AddPackages\<close> inserts the packages of a message into the set it is given.
\<close>

definition EnumGenerator_Generate :: "EnumGenerator \<Rightarrow> Printer \<Rightarrow> Printer" where
  "EnumGenerator_Generate e printer = printer @ [GENERATE_ENUM e]"

fun EnumGenerator_AddExports :: "EnumGenerator \<Rightarrow> string list \<Rightarrow> string list" where
  "EnumGenerator_AddExports (EnumGenerator d) exports = exports @ enum_symbols d"

definition MessageGenerator_Generate :: "MessageGenerator \<Rightarrow> Printer \<Rightarrow> Printer" where
  "MessageGenerator_Generate m printer = printer @ [GENERATE_MESSAGE m]"

fun MessageGenerator_AddExports :: "MessageGenerator \<Rightarrow> string list \<Rightarrow> string list" where
  "MessageGenerator_AddExports (MessageGenerator d) exports = exports @ message_symbols d"

fun MessageGenerator_AddPackages :: "MessageGenerator \<Rightarrow> string list \<Rightarrow> string list" where
  "MessageGenerator_AddPackages (MessageGenerator d) packages =
     fold set_insert (message_packages d) packages"

definition GenerateExtension :: "Printer \<Rightarrow> FieldDescriptor \<Rightarrow> FileDescriptor \<Rightarrow> Printer" where
  "GenerateExtension printer extension file = printer @ [GENERATE_EXTENSION extension file]"

definition ServiceGenerator_Generate :: "ServiceGenerator \<Rightarrow> Printer \<Rightarrow> Printer" where
  "ServiceGenerator_Generate s printer = printer @ [GENERATE_SERVICE s]"

fun ServiceGenerator_AddExports :: "ServiceGenerator \<Rightarrow> string list \<Rightarrow> string list" where
  "ServiceGenerator_AddExports (ServiceGenerator d) exports = exports @ service_symbols d"

fun ServiceGenerator_AddRpcExports :: "ServiceGenerator \<Rightarrow> string list \<Rightarrow> string list" where
  "ServiceGenerator_AddRpcExports (ServiceGenerator d) rpc_exports =
     rpc_exports @ service_rpc_symbols d"


section \<open>The constructor of \<^verbatim>\<open>FileGenerator\<close>\<close>

text \<open>
  The members of the class end in an underscore, which a name cannot do here: the
  member \<^verbatim>\<open>file_\<close> is the field \<open>this_file\<close>, and so on.
\<close>

record FileGenerator =
  this_file :: FileDescriptor
  this_lisp_package_name :: string
  this_schema_name :: string
  this_syntax :: string
  this_enums :: "EnumGenerator list"
  this_messages :: "MessageGenerator list"
  this_services :: "ServiceGenerator list"

datatype error = FATAL string
  \<comment> \<open>\<^verbatim>\<open>GOOGLE_LOG(FATAL)\<close> logs its message and aborts the process\<close>

text \<open>
  Lines 29 to 70. \<^verbatim>\<open>FileLispPackage\<close> comes from \<^verbatim>\<open>names.h\<close> and is a parameter.
  The constructor either aborts (\<open>Inl\<close>) or leaves a generator behind (\<open>Inr\<close>).
\<close>

definition FileGenerator ::
  "(FileDescriptor \<Rightarrow> string) \<Rightarrow> FileDescriptor \<Rightarrow> error + FileGenerator" where
  "FileGenerator FileLispPackage file =
    (let enums = map (\<lambda>i. EnumGenerator (file_enum_type file ! i)) [0..<enum_type_count file];
         messages =
           map (\<lambda>i. MessageGenerator (file_message_type file ! i)) [0..<message_type_count file];
         services = map (\<lambda>i. ServiceGenerator (file_service file ! i)) [0..<service_count file]
     in case (case file_syntax file of
                SYNTAX_PROTO2 \<Rightarrow> Inr '':proto2''
              | SYNTAX_PROTO3 \<Rightarrow> Inr '':proto3''
              | SYNTAX_UNKNOWN \<Rightarrow>
                  Inl (FATAL (''Unknown syntax for file: '' @ file_DebugString file))) of
          Inl fatal \<Rightarrow> Inl fatal
        | Inr syntax \<Rightarrow>
           (let schema_name = file_name file;
                slash = find_last_of schema_name [CHR 0x5C, CHR ''/''];
                schema_name =
                  (case slash of
                     Some slash \<Rightarrow> erase schema_name 0 (slash + 1)
                   | None \<Rightarrow> schema_name);
                period = rfind schema_name (CHR ''.'');
                schema_name =
                  (case period of
                     Some period \<Rightarrow> erase_from schema_name period
                   | None \<Rightarrow> schema_name);
                schema_name = StrToLower schema_name
            in Inr \<lparr> this_file = file,
                     this_lisp_package_name = FileLispPackage file,
                     this_schema_name = schema_name,
                     this_syntax = syntax,
                     this_enums = enums,
                     this_messages = messages,
                     this_services = services \<rparr>))"

section \<open>\<^verbatim>\<open>FileGenerator::GenerateSource\<close>\<close>

text \<open>
  The body of \<^verbatim>\<open>GenerateSource\<close> (lines 74 to 209) is straight-line code; it is
  given block by block, in source order, and put together at the end. Local variables
  of the source (\<^verbatim>\<open>packages\<close>, \<^verbatim>\<open>sep\<close>, \<^verbatim>\<open>exports\<close>, \<^verbatim>\<open>rpc_exports\<close>) are
  passed from block to block. A counting loop over \<^verbatim>\<open>i\<close> is a \<open>fold\<close> over
  \<open>[0..<n]\<close>, a range-based loop a \<open>fold\<close> over the container.
\<close>

text \<open>Lines 75 to 82: the file comment and the first \<^verbatim>\<open>in-package\<close>.\<close>

definition GenerateSource_header :: "FileGenerator \<Rightarrow> Printer \<Rightarrow> Printer" where
  "GenerateSource_header g printer =
    (let printer = Print printer
           '';;; $file_name$.lisp\<newline>;;;\<newline>;;; Generated by the protocol buffer compiler. DO NOT EDIT!\<newline>''
           [(''file_name'', file_name (this_file g))];
         printer = Print printer ''\<newline>(cl:in-package #:common-lisp-user)\<newline>'' []
     in printer)"

text \<open>Lines 84 to 90: the packages of the file itself.\<close>

definition GenerateSource_own_packages :: "FileGenerator \<Rightarrow> string list" where
  "GenerateSource_own_packages g =
    (let packages = []
     in if this_lisp_package_name g \<noteq> [] then
          (let packages = set_insert (this_lisp_package_name g) packages
           in if service_count (this_file g) > 0
              then set_insert (this_lisp_package_name g @ ''-RPC'') packages
              else packages)
        else packages)"

text \<open>Lines 92 to 94: the packages of the messages.\<close>

definition GenerateSource_packages :: "FileGenerator \<Rightarrow> string list" where
  "GenerateSource_packages g =
    (let packages = GenerateSource_own_packages g
     in fold (\<lambda>i packages. MessageGenerator_AddPackages (this_messages g ! i) packages)
          [0..<message_type_count (this_file g)] packages)"

text \<open>Lines 96 to 109: one declaration for each package of the set, then \<^verbatim>\<open>in-package\<close>.\<close>

definition GenerateSource_declare_packages ::
  "FileGenerator \<Rightarrow> string list \<Rightarrow> Printer \<Rightarrow> Printer" where
  \<open>GenerateSource_declare_packages g packages printer =
    (let printer = Print printer
           ''\<newline>#+sbcl (cl:declaim (cl:optimize (cl:debug 0) (sb-c:store-coverage-data 0)))\<newline>'' [];
         printer = fold (\<lambda>package printer. Print printer
           ''\<newline>(cl:eval-when (:compile-toplevel :load-toplevel :execute)\<newline>  (cl:unless (cl:find-package "$package_name$")\<newline>    (cl:defpackage "$package_name$" (:use))))\<newline>''
           [(''package_name'', package)]) packages printer
     in if this_lisp_package_name g \<noteq> [] then
          Print printer ''\<newline>(cl:in-package "$package_name$")\<newline>''
            [(''package_name'', this_lisp_package_name g)]
        else printer)\<close>

text \<open>Lines 111 to 136: the schema and its options.\<close>

definition GenerateSource_schema :: "FileGenerator \<Rightarrow> Printer \<Rightarrow> Printer" where
  \<open>GenerateSource_schema g printer =
    (let printer = Print printer
           ''\<newline>(cl:eval-when (:compile-toplevel :load-toplevel :execute)\<newline>(proto:define-schema '$schema_name$\<newline>''
           [(''schema_name'', this_schema_name g)];
         printer = Indent printer;
         printer = Indent printer;
         sep = [];
         printer = Print printer '':syntax $syntax$\<newline>'' [(''syntax'', this_syntax g)];
         (printer, sep) =
           (if file_package (this_file g) \<noteq> [] then
              (let printer = Print printer sep [];
                   sep = ''\<newline> '';
                   printer = Print printer '':package "$pck$"'' [(''pck'', file_package (this_file g))]
               in (printer, sep))
            else (printer, sep));
         (printer, sep) =
           (if dependency_count (this_file g) > 0 then
              (let printer = Print printer sep [];
                   printer = Print printer '':import '('' [];
                   sep = [];
                   (printer, sep) =
                     fold (\<lambda>i (printer, sep).
                            (let printer = Print printer sep [];
                                 sep = ''\<newline>          '';
                                 printer = Print printer ''"$import$"''
                                   [(''import'', file_dependency (this_file g) ! i)]
                             in (printer, sep)))
                       [0..<dependency_count (this_file g)] (printer, sep);
                   printer = Print printer '')'' [];
                   sep = ''\<newline> ''
               in (printer, sep))
            else (printer, sep));
         printer = Print printer ''))\<newline>'' [];
         printer = Outdent printer;
         printer = Outdent printer
     in printer)\<close>

text \<open>
  Lines 138 to 172: the enums, messages, extensions and services. The block returns the
  printer together with \<^verbatim>\<open>exports\<close> and \<^verbatim>\<open>rpc_exports\<close>.
\<close>

definition GenerateSource_definitions ::
  "FileGenerator \<Rightarrow> Printer \<Rightarrow> Printer \<times> string list \<times> string list" where
  "GenerateSource_definitions g printer =
    (let exports = [];
         exports = exports @ [this_schema_name g];
         (printer, exports) =
           (if enum_type_count (this_file g) > 0 then
              (let printer = Print printer ''\<newline>;; Top-Level enums.'' []
               in fold (\<lambda>i (printer, exports).
                         (let printer = EnumGenerator_Generate (this_enums g ! i) printer;
                              exports = EnumGenerator_AddExports (this_enums g ! i) exports
                          in (printer, exports)))
                    [0..<enum_type_count (this_file g)] (printer, exports))
            else (printer, exports));
         (printer, exports) =
           (if message_type_count (this_file g) > 0 then
              (let printer = Print printer ''\<newline>;; Top-Level messages.'' []
               in fold (\<lambda>i (printer, exports).
                         (let printer = MessageGenerator_Generate (this_messages g ! i) printer;
                              exports = MessageGenerator_AddExports (this_messages g ! i) exports
                          in (printer, exports)))
                    [0..<message_type_count (this_file g)] (printer, exports))
            else (printer, exports));
         printer =
           (if extension_count (this_file g) > 0 then
              (let printer = Print printer ''\<newline>;; Top-Level extensions.'' []
               in fold (\<lambda>i printer.
                         GenerateExtension printer (file_extension (this_file g) ! i) (this_file g))
                    [0..<extension_count (this_file g)] printer)
            else printer);
         rpc_exports = [];
         (printer, exports, rpc_exports) =
           (if service_count (this_file g) > 0 then
              (let printer = Print printer ''\<newline>;; Services.'' []
               in fold (\<lambda>i (printer, exports, rpc_exports).
                         (let printer = ServiceGenerator_Generate (this_services g ! i) printer;
                              exports = ServiceGenerator_AddExports (this_services g ! i) exports;
                              rpc_exports =
                                ServiceGenerator_AddRpcExports (this_services g ! i) rpc_exports
                          in (printer, exports, rpc_exports)))
                    [0..<service_count (this_file g)] (printer, exports, rpc_exports))
            else (printer, exports, rpc_exports))
     in (printer, exports, rpc_exports))"

text \<open>Lines 176 to 182: the schema is registered under the path of the file.\<close>

definition GenerateSource_register :: "FileGenerator \<Rightarrow> Printer \<Rightarrow> Printer" where
  \<open>GenerateSource_register g printer =
     Print printer
       ''\<newline>\<newline>(cl:eval-when (:compile-toplevel :load-toplevel :execute)\<newline>(cl:setf (cl:gethash #P"$file_name$" proto-impl::*all-schemas*)\<newline>         (proto:find-schema '$schema_name$)))\<newline>''
       [(''file_name'', file_name (this_file g)), (''schema_name'', this_schema_name g)]\<close>

text \<open>Lines 184 to 208: the export statements.\<close>

definition GenerateSource_exports ::
  "FileGenerator \<Rightarrow> string list \<Rightarrow> string list \<Rightarrow> Printer \<Rightarrow> Printer" where
  \<open>GenerateSource_exports g exports rpc_exports printer =
    (if this_lisp_package_name g \<noteq> [] then
       (let printer =
              (if exports \<noteq> [] then
                 (let sep = ''('';
                      printer = Print printer (''\<newline>(cl:export '' @ [CHR 0x27]) [];
                      (printer, sep) =
                        fold (\<lambda>e (printer, sep).
                               (let printer = Print printer sep [];
                                    sep = ''\<newline>             '';
                                    printer = PrintRaw printer e
                                in (printer, sep)))
                          exports (printer, sep);
                      printer = Print printer ''))\<newline>'' []
                  in printer)
               else printer);
            printer =
              (if rpc_exports \<noteq> [] then
                 (let printer = Print printer ''\<newline>(cl:in-package "$package_name$")\<newline>''
                        [(''package_name'', this_lisp_package_name g @ ''-RPC'')];
                      sep = ''('';
                      printer = Print printer (''\<newline>(cl:export '' @ [CHR 0x27]) [];
                      (printer, sep) =
                        fold (\<lambda>e (printer, sep).
                               (let printer = Print printer sep [];
                                    sep = ''\<newline>             '';
                                    printer = PrintRaw printer e
                                in (printer, sep)))
                          rpc_exports (printer, sep);
                      printer = Print printer ''))\<newline>'' []
                  in printer)
               else printer)
        in printer)
     else printer)\<close>

text \<open>Lines 74 to 209.\<close>

definition GenerateSource :: "FileGenerator \<Rightarrow> Printer \<Rightarrow> Printer" where
  "GenerateSource g printer =
    (let printer = GenerateSource_header g printer;
         packages = GenerateSource_packages g;
         printer = GenerateSource_declare_packages g packages printer;
         printer = GenerateSource_schema g printer;
         (printer, exports, rpc_exports) = GenerateSource_definitions g printer;
         printer = GenerateSource_register g printer;
         printer = GenerateSource_exports g exports rpc_exports printer
     in printer)"

section \<open>What a sequence of printer calls shows\<close>

text \<open>
  The claims speak of package declarations, of the schema options and of export
  statements. The templates of \<^verbatim>\<open>file.cc\<close> that print them are named here, and the
  shapes that the loops of \<^verbatim>\<open>GenerateSource\<close> are to produce are written out as
  lists of calls.
\<close>

abbreviation declaim_template :: string where
  "declaim_template \<equiv>
     ''\<newline>#+sbcl (cl:declaim (cl:optimize (cl:debug 0) (sb-c:store-coverage-data 0)))\<newline>''"

abbreviation defpackage_template :: string where
  \<open>defpackage_template \<equiv>
     ''\<newline>(cl:eval-when (:compile-toplevel :load-toplevel :execute)\<newline>  (cl:unless (cl:find-package "$package_name$")\<newline>    (cl:defpackage "$package_name$" (:use))))\<newline>''\<close>

abbreviation in_package_template :: string where
  \<open>in_package_template \<equiv> ''\<newline>(cl:in-package "$package_name$")\<newline>''\<close>

abbreviation define_schema_template :: string where
  "define_schema_template \<equiv>
     ''\<newline>(cl:eval-when (:compile-toplevel :load-toplevel :execute)\<newline>(proto:define-schema '$schema_name$\<newline>''"

abbreviation syntax_template :: string where
  "syntax_template \<equiv> '':syntax $syntax$\<newline>''"

abbreviation package_template :: string where
  \<open>package_template \<equiv> '':package "$pck$"''\<close>

abbreviation import_open :: string where
  "import_open \<equiv> '':import '(''"

abbreviation import_template :: string where
  \<open>import_template \<equiv> ''"$import$"''\<close>

abbreviation register_template :: string where
  \<open>register_template \<equiv>
     ''\<newline>\<newline>(cl:eval-when (:compile-toplevel :load-toplevel :execute)\<newline>(cl:setf (cl:gethash #P"$file_name$" proto-impl::*all-schemas*)\<newline>         (proto:find-schema '$schema_name$)))\<newline>''\<close>

text \<open>The opening of an export statement: a line break, \<^verbatim>\<open>(cl:export\<close>, a space and a quote.\<close>

abbreviation export_open :: string where
  "export_open \<equiv>
     [CHR ''\<newline>'', CHR ''('', CHR ''c'', CHR ''l'', CHR '':'', CHR ''e'', CHR ''x'', CHR ''p'',
      CHR ''o'', CHR ''r'', CHR ''t'', CHR '' '', CHR 0x27]"

text \<open>The calls that emit the declaration of an enum, message, extension or service.\<close>

fun is_declaration :: "call \<Rightarrow> bool" where
  "is_declaration (GENERATE_ENUM e) = True"
| "is_declaration (GENERATE_MESSAGE m) = True"
| "is_declaration (GENERATE_EXTENSION x file) = True"
| "is_declaration (GENERATE_SERVICE s) = True"
| "is_declaration _ = False"

text \<open>
  An export statement for the symbols \<open>es\<close>: the opening, each symbol after its
  separator (an opening parenthesis before the first, a line break before the others),
  and the closing.
\<close>

fun export_items :: "string \<Rightarrow> string list \<Rightarrow> call list" where
  "export_items sep [] = []"
| "export_items sep (e # es) =
     PRINT sep [] # PRINT_RAW e # export_items ''\<newline>             '' es"

definition export_statement :: "string list \<Rightarrow> call list" where
  "export_statement es = PRINT export_open [] # export_items ''('' es @ [PRINT ''))\<newline>'' []]"

text \<open>The entries of an import list, each after its separator.\<close>

fun import_items :: "string \<Rightarrow> string list \<Rightarrow> call list" where
  "import_items sep [] = []"
| "import_items sep (d # ds) =
     PRINT sep [] # PRINT import_template [(''import'', d)]
       # import_items ''\<newline>          '' ds"

text \<open>The symbols that the generators of a file report, in the order of the source.\<close>

definition type_exports :: "FileDescriptor \<Rightarrow> string list" where
  "type_exports file =
     concat (map enum_symbols (file_enum_type file))
     @ concat (map message_symbols (file_message_type file))
     @ concat (map service_symbols (file_service file))"

definition rpc_exports_of :: "FileDescriptor \<Rightarrow> string list" where
  "rpc_exports_of file = concat (map service_rpc_symbols (file_service file))"


text \<open>
  What a sequence of calls prints with a given template: the variables of each
  \<^verbatim>\<open>Print\<close> call with that template, in order. And what it prints raw.
\<close>

fun printed_with :: "string \<Rightarrow> call \<Rightarrow> (string \<times> string) list list" where
  "printed_with template (PRINT text vars) = (if text = template then [vars] else [])"
| "printed_with template _ = []"

definition prints :: "string \<Rightarrow> Printer \<Rightarrow> (string \<times> string) list list" where
  "prints template printer = concat (map (printed_with template) printer)"

fun printed_raw :: "call \<Rightarrow> string list" where
  "printed_raw (PRINT_RAW data) = [data]"
| "printed_raw _ = []"

definition raw_prints :: "Printer \<Rightarrow> string list" where
  "raw_prints printer = concat (map printed_raw printer)"

text \<open>The packages declared and the files imported, in the order of their printing.\<close>

definition declared_packages :: "Printer \<Rightarrow> string list" where
  "declared_packages printer = map snd (concat (prints defpackage_template printer))"

definition imported_names :: "Printer \<Rightarrow> string list" where
  "imported_names printer = map snd (concat (prints import_template printer))"


text \<open>The options that the schema block prints between its opening and its closing.\<close>

definition schema_options :: "FileGenerator \<Rightarrow> call list" where
  "schema_options g =
     PRINT syntax_template [(''syntax'', this_syntax g)]
     # (if file_package (this_file g) = [] then []
        else [PRINT [] [], PRINT package_template [(''pck'', file_package (this_file g))]])
     @ (if file_dependency (this_file g) = [] then []
        else PRINT (if file_package (this_file g) = [] then [] else ''\<newline> '') []
             # PRINT import_open []
             # import_items [] (file_dependency (this_file g))
             @ [PRINT '')'' []])"

text \<open>The declarations of the entities of a file, each group under its comment line.\<close>

definition declarations :: "FileDescriptor \<Rightarrow> call list" where
  "declarations file =
     (if file_enum_type file = [] then []
      else PRINT ''\<newline>;; Top-Level enums.'' []
           # map (\<lambda>d. GENERATE_ENUM (EnumGenerator d)) (file_enum_type file))
     @ (if file_message_type file = [] then []
        else PRINT ''\<newline>;; Top-Level messages.'' []
             # map (\<lambda>d. GENERATE_MESSAGE (MessageGenerator d)) (file_message_type file))
     @ (if file_extension file = [] then []
        else PRINT ''\<newline>;; Top-Level extensions.'' []
             # map (\<lambda>x. GENERATE_EXTENSION x file) (file_extension file))
     @ (if file_service file = [] then []
        else PRINT ''\<newline>;; Services.'' []
             # map (\<lambda>d. GENERATE_SERVICE (ServiceGenerator d)) (file_service file))"

text \<open>The two export statements at the end of the file.\<close>

definition export_statements :: "string \<Rightarrow> string list \<Rightarrow> string list \<Rightarrow> call list" where
  "export_statements lisp_package_name exports rpc_exports =
     (if lisp_package_name = [] then []
      else (if exports = [] then [] else export_statement exports)
         @ (if rpc_exports = [] then []
            else PRINT in_package_template [(''package_name'', lisp_package_name @ ''-RPC'')]
                 # export_statement rpc_exports))"


text \<open>
  The schema name as the specification words it: the base name of the path, that is
  what follows the last forward slash or backslash, without what the last period
  starts, in lower case.
\<close>

definition is_separator :: "char \<Rightarrow> bool" where
  "is_separator c = (c = CHR ''/'' \<or> c = CHR 0x5C)"

definition base_name :: "string \<Rightarrow> string" where
  "base_name path = rev (takeWhile (\<lambda>c. \<not> is_separator c) (rev path))"

definition strip_extension :: "string \<Rightarrow> string" where
  "strip_extension name =
     (if CHR ''.'' \<in> set name then rev (tl (dropWhile (\<lambda>c. c \<noteq> CHR ''.'') (rev name)))
      else name)"

definition normalized_schema_name :: "string \<Rightarrow> string" where
  "normalized_schema_name path = StrToLower (strip_extension (base_name path))"

text \<open>
  The packages of a file: its own package unless that is empty, then also the RPC
  package if the file has a service, and the packages of its messages.
\<close>

definition message_package_set :: "FileDescriptor \<Rightarrow> string set" where
  "message_package_set file = (\<Union>d \<in> set (file_message_type file). set (message_packages d))"

definition file_packages :: "(FileDescriptor \<Rightarrow> string) \<Rightarrow> FileDescriptor \<Rightarrow> string set" where
  "file_packages FileLispPackage file =
     (if FileLispPackage file = [] then {}
      else {FileLispPackage file}
           \<union> (if service_count file > 0 then {FileLispPackage file @ ''-RPC''} else {}))
     \<union> message_package_set file"

text \<open>
  The same set with the RPC package present whenever the file has a service, whatever
  the package of the file.
\<close>

definition file_packages_by_service ::
  "(FileDescriptor \<Rightarrow> string) \<Rightarrow> FileDescriptor \<Rightarrow> string set" where
  "file_packages_by_service FileLispPackage file =
     (if FileLispPackage file = [] then {} else {FileLispPackage file})
     \<union> (if service_count file > 0 then {FileLispPackage file @ ''-RPC''} else {})
     \<union> message_package_set file"



section \<open>Example files\<close>

text \<open>
  An address book with an enum, a message, a service and two imports, generated into
  the package \<^verbatim>\<open>CL-PROTOBUFS.TUTORIAL\<close>.
\<close>

definition tutorial_package :: "FileDescriptor \<Rightarrow> string" where
  "tutorial_package file = ''CL-PROTOBUFS.TUTORIAL''"

definition phone_type :: EnumDescriptor where
  "phone_type = \<lparr> enum_full_name = ''tutorial.PhoneType'',
                  enum_symbols = [''PHONE-TYPE'', ''PHONE-TYPE-INT-TO-KEYWORD''] \<rparr>"

definition person :: Descriptor where
  "person = \<lparr> message_full_name = ''tutorial.Person'',
              message_symbols = [''PERSON'', ''PHONE-NUMBER''],
              message_packages = [''CL-PROTOBUFS.TUTORIAL'', ''CL-PROTOBUFS.GOOGLE.PROTOBUF'',
                                  ''CL-PROTOBUFS.COMMON'', ''CL-PROTOBUFS.GOOGLE.PROTOBUF''] \<rparr>"

definition lookup :: ServiceDescriptor where
  "lookup = \<lparr> service_full_name = ''tutorial.Lookup'',
              service_symbols = [''LOOKUP''],
              service_rpc_symbols = [''CALL-FIND'', ''FIND''] \<rparr>"

definition addressbook :: FileDescriptor where
  "addressbook =
     \<lparr> file_name = ''protos/AddressBook.proto'',
       file_package = ''tutorial'',
       file_syntax = SYNTAX_PROTO3,
       file_dependency = [''google/protobuf/timestamp.proto'', ''common.proto''],
       file_enum_type = [phone_type],
       file_message_type = [person],
       file_extension = [],
       file_service = [lookup],
       file_DebugString = ''package tutorial;'' \<rparr>"

definition addressbook_generator :: FileGenerator where
  "addressbook_generator =
     \<lparr> this_file = addressbook,
       this_lisp_package_name = ''CL-PROTOBUFS.TUTORIAL'',
       this_schema_name = ''addressbook'',
       this_syntax = '':proto3'',
       this_enums = [EnumGenerator phone_type],
       this_messages = [MessageGenerator person],
       this_services = [ServiceGenerator lookup] \<rparr>"

text \<open>A file that declares nothing, with and without a Lisp package.\<close>

definition empty_file :: FileDescriptor where
  "empty_file =
     \<lparr> file_name = ''empty.proto'',
       file_package = [],
       file_syntax = SYNTAX_PROTO2,
       file_dependency = [],
       file_enum_type = [],
       file_message_type = [],
       file_extension = [],
       file_service = [],
       file_DebugString = [] \<rparr>"

definition empty_generator :: FileGenerator where
  "empty_generator =
     \<lparr> this_file = empty_file,
       this_lisp_package_name = ''CL-PROTOBUFS.TUTORIAL'',
       this_schema_name = ''empty'',
       this_syntax = '':proto2'',
       this_enums = [],
       this_messages = [],
       this_services = [] \<rparr>"

definition no_lisp_package :: "FileDescriptor \<Rightarrow> string" where
  "no_lisp_package file = []"

text \<open>
  A file with one service and an extension, under a path with backslashes, for which
  no Lisp package is derived.
\<close>

definition echo :: ServiceDescriptor where
  "echo = \<lparr> service_full_name = ''Echo'',
            service_symbols = [''ECHO''],
            service_rpc_symbols = [''CALL-SAY'', ''SAY''] \<rparr>"

definition echo_option :: FieldDescriptor where
  "echo_option = \<lparr> field_full_name = ''echo_option'' \<rparr>"

definition echo_file :: FileDescriptor where
  "echo_file =
     \<lparr> file_name = ''C:'' @ [CHR 0x5C] @ ''rpc.v1/protos'' @ [CHR 0x5C] @ ''Echo.Service.PROTO'',
       file_package = [],
       file_syntax = SYNTAX_PROTO2,
       file_dependency = [],
       file_enum_type = [],
       file_message_type = [],
       file_extension = [echo_option],
       file_service = [echo],
       file_DebugString = [] \<rparr>"

definition echo_generator :: FileGenerator where
  "echo_generator =
     \<lparr> this_file = echo_file,
       this_lisp_package_name = [],
       this_schema_name = ''echo.service'',
       this_syntax = '':proto2'',
       this_enums = [],
       this_messages = [],
       this_services = [ServiceGenerator echo] \<rparr>"

text \<open>
  A file without a service, generated into \<^verbatim>\<open>CL-PROTOBUFS.TUTORIAL\<close>, with a
  message that has a field of a type from a file whose Lisp package is named
  \<^verbatim>\<open>CL-PROTOBUFS.TUTORIAL-RPC\<close>.
\<close>

definition envelope :: Descriptor where
  "envelope = \<lparr> message_full_name = ''tutorial.Envelope'',
                message_symbols = [''ENVELOPE''],
                message_packages = [''CL-PROTOBUFS.TUTORIAL'', ''CL-PROTOBUFS.TUTORIAL-RPC''] \<rparr>"

definition envelope_file :: FileDescriptor where
  "envelope_file =
     \<lparr> file_name = ''envelope.proto'',
       file_package = ''tutorial'',
       file_syntax = SYNTAX_PROTO3,
       file_dependency = [''tutorial_rpc.proto''],
       file_enum_type = [],
       file_message_type = [envelope],
       file_extension = [],
       file_service = [],
       file_DebugString = ''package tutorial;'' \<rparr>"

definition envelope_generator :: FileGenerator where
  "envelope_generator =
     \<lparr> this_file = envelope_file,
       this_lisp_package_name = ''CL-PROTOBUFS.TUTORIAL'',
       this_schema_name = ''envelope'',
       this_syntax = '':proto3'',
       this_enums = [],
       this_messages = [MessageGenerator envelope],
       this_services = [] \<rparr>"

text \<open>A file whose syntax is unknown.\<close>

definition unknown_file :: FileDescriptor where
  "unknown_file = empty_file \<lparr> file_name := ''unknown.proto'', file_syntax := SYNTAX_UNKNOWN,
                                file_DebugString := ''package unknown;'' \<rparr>"


section \<open>The calls of each block\<close>

lemma map_index: "map (\<lambda>i. f (xs ! i)) [0..<length xs] = map f xs"
  by (simp add: map_equality_iff)

lemma GenerateSource_header_calls:
  "GenerateSource_header g p =
     p @ [PRINT '';;; $file_name$.lisp\<newline>;;;\<newline>;;; Generated by the protocol buffer compiler. DO NOT EDIT!\<newline>''
            [(''file_name'', file_name (this_file g))],
          PRINT ''\<newline>(cl:in-package #:common-lisp-user)\<newline>'' []]"
  by (simp add: GenerateSource_header_def Print_def)

lemma fold_defpackage:
  "fold (\<lambda>package printer. Print printer defpackage_template [(''package_name'', package)])
     packages p
   = p @ map (\<lambda>package. PRINT defpackage_template [(''package_name'', package)]) packages"
  by (induction packages arbitrary: p) (simp_all add: Print_def)

lemma GenerateSource_declare_packages_calls:
  "GenerateSource_declare_packages g packages p =
     p @ PRINT declaim_template []
       # map (\<lambda>package. PRINT defpackage_template [(''package_name'', package)]) packages
       @ (if this_lisp_package_name g = [] then []
          else [PRINT in_package_template [(''package_name'', this_lisp_package_name g)]])"
  unfolding GenerateSource_declare_packages_def
  apply (simp only: fold_defpackage)
  apply (simp add: Print_def Let_def)
  done

lemma fold_import_items:
  "n \<le> length ds \<Longrightarrow>
   fold (\<lambda>i (printer, sep).
           (let printer = Print printer sep [];
                sep = ''\<newline>          '';
                printer = Print printer import_template [(''import'', ds ! i)]
            in (printer, sep))) [0..<n] (p, sep)
   = (p @ import_items sep (take n ds), if n = 0 then sep else ''\<newline>          '')"
proof (induction n arbitrary: p sep)
  case 0
  show ?case by simp
next
  case (Suc n)
  have items: "import_items s (xs @ [d]) =
      import_items s xs
      @ [PRINT (if xs = [] then s else ''\<newline>          '') [], PRINT import_template [(''import'', d)]]"
    for s xs d
    by (induction xs arbitrary: s) simp_all
  from Suc.prems have "n < length ds" and "ds \<noteq> []"
    by auto
  with Suc.IH [of p sep] show ?case
    by (simp add: take_Suc_conv_app_nth items Print_def)
qed

lemma GenerateSource_schema_calls:
  "GenerateSource_schema g p =
     p @ [PRINT define_schema_template [(''schema_name'', this_schema_name g)], INDENT, INDENT]
       @ schema_options g
       @ [PRINT ''))\<newline>'' [], OUTDENT, OUTDENT]"
  unfolding GenerateSource_schema_def dependency_count_def
  apply (simp only: fold_import_items [OF order_refl])
  apply (simp add: Print_def Indent_def Outdent_def Let_def schema_options_def)
  done

lemma GenerateSource_register_calls:
  "GenerateSource_register g p =
     p @ [PRINT register_template
            [(''file_name'', file_name (this_file g)), (''schema_name'', this_schema_name g)]]"
  by (simp add: GenerateSource_register_def Print_def)

lemma fold_export_items:
  "fold (\<lambda>e (printer, sep).
           (let printer = Print printer sep [];
                sep = ''\<newline>             '';
                printer = PrintRaw printer e
            in (printer, sep))) es (p, sep)
   = (p @ export_items sep es, if es = [] then sep else ''\<newline>             '')"
  by (induction es arbitrary: p sep) (simp_all add: Print_def PrintRaw_def)

lemma GenerateSource_exports_calls:
  "GenerateSource_exports g exports rpc_exports p =
     p @ export_statements (this_lisp_package_name g) exports rpc_exports"
  unfolding GenerateSource_exports_def
  apply (simp only: fold_export_items)
  apply (simp add: Print_def export_statement_def export_statements_def Let_def)
  done


lemma fold_enums_upto:
  "n \<le> length ds \<Longrightarrow>
   fold (\<lambda>i (printer, exports).
           (EnumGenerator_Generate (map EnumGenerator ds ! i) printer,
            EnumGenerator_AddExports (map EnumGenerator ds ! i) exports)) [0..<n] (p, ex)
   = (p @ map (\<lambda>d. GENERATE_ENUM (EnumGenerator d)) (take n ds),
      ex @ concat (map enum_symbols (take n ds)))"
  by (induction n arbitrary: p ex)
     (simp_all add: take_Suc_conv_app_nth EnumGenerator_Generate_def)

lemma fold_enums:
  "fold (\<lambda>i (printer, exports).
           (EnumGenerator_Generate (map EnumGenerator ds ! i) printer,
            EnumGenerator_AddExports (map EnumGenerator ds ! i) exports))
     [0..<length ds] (p, ex)
   = (p @ map (\<lambda>d. GENERATE_ENUM (EnumGenerator d)) ds, ex @ concat (map enum_symbols ds))"
  using fold_enums_upto [of "length ds" ds p ex] by simp

lemma fold_messages_upto:
  "n \<le> length ds \<Longrightarrow>
   fold (\<lambda>i (printer, exports).
           (MessageGenerator_Generate (map MessageGenerator ds ! i) printer,
            MessageGenerator_AddExports (map MessageGenerator ds ! i) exports)) [0..<n] (p, ex)
   = (p @ map (\<lambda>d. GENERATE_MESSAGE (MessageGenerator d)) (take n ds),
      ex @ concat (map message_symbols (take n ds)))"
  by (induction n arbitrary: p ex)
     (simp_all add: take_Suc_conv_app_nth MessageGenerator_Generate_def)

lemma fold_messages:
  "fold (\<lambda>i (printer, exports).
           (MessageGenerator_Generate (map MessageGenerator ds ! i) printer,
            MessageGenerator_AddExports (map MessageGenerator ds ! i) exports))
     [0..<length ds] (p, ex)
   = (p @ map (\<lambda>d. GENERATE_MESSAGE (MessageGenerator d)) ds,
      ex @ concat (map message_symbols ds))"
  using fold_messages_upto [of "length ds" ds p ex] by simp

lemma fold_extensions_upto:
  "n \<le> length xs \<Longrightarrow>
   fold (\<lambda>i printer. GenerateExtension printer (xs ! i) file) [0..<n] p
   = p @ map (\<lambda>x. GENERATE_EXTENSION x file) (take n xs)"
  by (induction n arbitrary: p)
     (simp_all add: take_Suc_conv_app_nth GenerateExtension_def)

lemma fold_extensions:
  "fold (\<lambda>i printer. GenerateExtension printer (xs ! i) file) [0..<length xs] p
   = p @ map (\<lambda>x. GENERATE_EXTENSION x file) xs"
  using fold_extensions_upto [where n = "length xs" and xs = xs] by simp

lemma fold_services_upto:
  "n \<le> length ds \<Longrightarrow>
   fold (\<lambda>i (printer, exports, rpc_exports).
           (ServiceGenerator_Generate (map ServiceGenerator ds ! i) printer,
            ServiceGenerator_AddExports (map ServiceGenerator ds ! i) exports,
            ServiceGenerator_AddRpcExports (map ServiceGenerator ds ! i) rpc_exports))
     [0..<n] (p, ex, rpc)
   = (p @ map (\<lambda>d. GENERATE_SERVICE (ServiceGenerator d)) (take n ds),
      ex @ concat (map service_symbols (take n ds)),
      rpc @ concat (map service_rpc_symbols (take n ds)))"
  by (induction n arbitrary: p ex rpc)
     (simp_all add: take_Suc_conv_app_nth ServiceGenerator_Generate_def)

lemma fold_services:
  "fold (\<lambda>i (printer, exports, rpc_exports).
           (ServiceGenerator_Generate (map ServiceGenerator ds ! i) printer,
            ServiceGenerator_AddExports (map ServiceGenerator ds ! i) exports,
            ServiceGenerator_AddRpcExports (map ServiceGenerator ds ! i) rpc_exports))
     [0..<length ds] (p, ex, rpc)
   = (p @ map (\<lambda>d. GENERATE_SERVICE (ServiceGenerator d)) ds,
      ex @ concat (map service_symbols ds),
      rpc @ concat (map service_rpc_symbols ds))"
  using fold_services_upto [of "length ds" ds p ex rpc] by simp

lemma FileGenerator_Inr:
  assumes "FileGenerator FileLispPackage file = Inr g"
  shows "this_file g = file"
    and "this_lisp_package_name g = FileLispPackage file"
    and "this_enums g = map EnumGenerator (file_enum_type file)"
    and "this_messages g = map MessageGenerator (file_message_type file)"
    and "this_services g = map ServiceGenerator (file_service file)"
  using assms
  by (auto simp: FileGenerator_def Let_def map_index enum_type_count_def
        message_type_count_def service_count_def split: Syntax.splits)

lemma GenerateSource_definitions_calls:
  assumes "FileGenerator FileLispPackage file = Inr g"
  shows "GenerateSource_definitions g p =
           (p @ declarations file, this_schema_name g # type_exports file, rpc_exports_of file)"
  unfolding GenerateSource_definitions_def enum_type_count_def message_type_count_def
    extension_count_def service_count_def FileGenerator_Inr [OF assms] Let_def
  apply (simp only: fold_enums fold_messages fold_extensions fold_services)
  apply (simp add: Print_def declarations_def type_exports_def rpc_exports_of_def)
  done


section \<open>The schema name\<close>

lemma find_last_None: "find_last P xs = None \<longleftrightarrow> (\<forall>x \<in> set xs. \<not> P x)"
  by (induction xs) (auto split: option.splits)

lemma find_last_Some:
  "find_last P xs = Some i \<Longrightarrow>
     drop (Suc i) xs = rev (takeWhile (\<lambda>x. \<not> P x) (rev xs))
     \<and> take i xs = rev (tl (dropWhile (\<lambda>x. \<not> P x) (rev xs)))"
proof (induction xs arbitrary: i)
  case Nil
  then show ?case by simp
next
  case (Cons x xs)
  show ?case
  proof (cases "find_last P xs")
    case None
    with Cons.prems have "P x" and "i = 0"
      by (auto split: if_splits)
    moreover from None have all: "\<And>y. y \<in> set (rev xs) \<Longrightarrow> \<not> P y"
      by (simp add: find_last_None)
    have "takeWhile (\<lambda>x. \<not> P x) (rev xs @ [x]) = rev xs @ takeWhile (\<lambda>x. \<not> P x) [x]"
      by (rule takeWhile_append2) (rule all)
    moreover
    have "dropWhile (\<lambda>x. \<not> P x) (rev xs @ [x]) = dropWhile (\<lambda>x. \<not> P x) [x]"
      by (rule dropWhile_append2) (rule all)
    ultimately show ?thesis
      by simp
  next
    case (Some j)
    with Cons.prems have i: "i = Suc j"
      by simp
    from Some have "\<exists>y \<in> set (rev xs). P y"
      using find_last_None [of P xs] by auto
    then have "takeWhile (\<lambda>x. \<not> P x) (rev xs @ [x]) = takeWhile (\<lambda>x. \<not> P x) (rev xs)"
      and "dropWhile (\<lambda>x. \<not> P x) (rev xs @ [x]) = dropWhile (\<lambda>x. \<not> P x) (rev xs) @ [x]"
      and "dropWhile (\<lambda>x. \<not> P x) (rev xs) \<noteq> []"
      by auto
    with Cons.IH [OF Some] i show ?thesis
      by simp
  qed
qed

lemma find_last_of_separator:
  "find_last_of path [CHR 0x5C, CHR ''/''] = find_last is_separator path"
proof -
  have "(\<lambda>c. c \<in> set [CHR 0x5C, CHR ''/'']) = is_separator"
    by (auto simp: is_separator_def)
  then show ?thesis
    unfolding find_last_of_def by (rule arg_cong)
qed

lemma erase_slash:
  "(case find_last_of path [CHR 0x5C, CHR ''/''] of
      Some slash \<Rightarrow> erase path 0 (slash + 1)
    | None \<Rightarrow> path) = base_name path"
proof (cases "find_last is_separator path")
  case None
  have "takeWhile (\<lambda>c. \<not> is_separator c) (rev path) = rev path"
    by (rule takeWhile_eq_all_conv [THEN iffD2]) (use None in \<open>simp add: find_last_None\<close>)
  then have "base_name path = path"
    unfolding base_name_def by (simp only: rev_rev_ident)
  then show ?thesis
    unfolding find_last_of_separator None by simp
next
  case (Some i)
  from find_last_Some [OF Some] have "drop (Suc i) path = base_name path"
    unfolding base_name_def by (rule conjunct1)
  then show ?thesis
    unfolding find_last_of_separator Some by (simp add: erase_def)
qed

lemma erase_period:
  "(case rfind name (CHR ''.'') of
      Some period \<Rightarrow> erase_from name period
    | None \<Rightarrow> name) = strip_extension name"
proof (cases "find_last (\<lambda>d. d = CHR ''.'') name")
  case None
  then have "CHR ''.'' \<notin> set name"
    by (auto simp: find_last_None)
  then have "strip_extension name = name"
    by (simp add: strip_extension_def)
  then show ?thesis
    unfolding rfind_def None by simp
next
  case (Some i)
  have "CHR ''.'' \<in> set name"
  proof (rule ccontr)
    assume "CHR ''.'' \<notin> set name"
    then have "find_last (\<lambda>d. d = CHR ''.'') name = None"
      by (auto simp: find_last_None)
    with Some show False by simp
  qed
  then have "strip_extension name = rev (tl (dropWhile (\<lambda>c. c \<noteq> CHR ''.'') (rev name)))"
    by (simp add: strip_extension_def)
  moreover from find_last_Some [OF Some]
  have "take i name = rev (tl (dropWhile (\<lambda>c. c \<noteq> CHR ''.'') (rev name)))"
    by (rule conjunct2)
  ultimately show ?thesis
    unfolding rfind_def Some by (simp add: erase_from_def)
qed

section \<open>The set of packages\<close>

lemma set_insert_set: "set (set_insert x s) = insert x (set s)"
  by (auto simp: set_insert_def set_insort_key)

lemma set_insert_sorted: "sorted s \<Longrightarrow> sorted (set_insert x s)"
  by (simp add: set_insert_def sorted_insort)

lemma set_insert_distinct: "distinct s \<Longrightarrow> distinct (set_insert x s)"
  by (simp add: set_insert_def distinct_insort)

lemma fold_set_insert:
  "set (fold set_insert xs s) = set xs \<union> set s"
  "sorted s \<Longrightarrow> sorted (fold set_insert xs s)"
  "distinct s \<Longrightarrow> distinct (fold set_insert xs s)"
  by (induction xs arbitrary: s)
     (auto simp: set_insert_set set_insert_sorted set_insert_distinct)

lemma fold_AddPackages_upto:
  "n \<le> length ds \<Longrightarrow>
   fold (\<lambda>i packages. MessageGenerator_AddPackages (map MessageGenerator ds ! i) packages)
     [0..<n] s
   = fold (\<lambda>d. fold set_insert (message_packages d)) (take n ds) s"
  by (induction n arbitrary: s) (simp_all add: take_Suc_conv_app_nth)

lemma fold_message_packages:
  "set (fold (\<lambda>d. fold set_insert (message_packages d)) ds s)
     = (\<Union>d \<in> set ds. set (message_packages d)) \<union> set s"
  "sorted s \<Longrightarrow> sorted (fold (\<lambda>d. fold set_insert (message_packages d)) ds s)"
  "distinct s \<Longrightarrow> distinct (fold (\<lambda>d. fold set_insert (message_packages d)) ds s)"
  by (induction ds arbitrary: s) (auto simp: fold_set_insert)

lemma GenerateSource_own_packages_set:
  "set (GenerateSource_own_packages g) =
     (if this_lisp_package_name g = [] then {}
      else {this_lisp_package_name g}
           \<union> (if service_count (this_file g) > 0 then {this_lisp_package_name g @ ''-RPC''}
              else {}))"
  by (auto simp: GenerateSource_own_packages_def Let_def set_insert_set)

lemma GenerateSource_own_packages_sorted:
  "sorted (GenerateSource_own_packages g)" "distinct (GenerateSource_own_packages g)"
  by (simp_all add: GenerateSource_own_packages_def Let_def set_insert_sorted
        set_insert_distinct)

lemma GenerateSource_packages_set:
  assumes "FileGenerator FileLispPackage file = Inr g"
  shows "set (GenerateSource_packages g) = file_packages FileLispPackage file"
    and "sorted (GenerateSource_packages g)"
    and "distinct (GenerateSource_packages g)"
  unfolding GenerateSource_packages_def Let_def message_type_count_def
    FileGenerator_Inr [OF assms]
  using fold_AddPackages_upto [of "length (file_message_type file)" "file_message_type file"]
  by (auto simp: fold_message_packages GenerateSource_own_packages_set
        GenerateSource_own_packages_sorted FileGenerator_Inr [OF assms] file_packages_def
        message_package_set_def)


section \<open>The whole sequence of calls\<close>

lemma GenerateSource_calls:
  assumes "FileGenerator FileLispPackage file = Inr g"
  shows "GenerateSource g p =
     p @ [PRINT '';;; $file_name$.lisp\<newline>;;;\<newline>;;; Generated by the protocol buffer compiler. DO NOT EDIT!\<newline>''
            [(''file_name'', file_name file)],
          PRINT ''\<newline>(cl:in-package #:common-lisp-user)\<newline>'' [],
          PRINT declaim_template []]
       @ map (\<lambda>package. PRINT defpackage_template [(''package_name'', package)])
           (GenerateSource_packages g)
       @ (if FileLispPackage file = [] then []
          else [PRINT in_package_template [(''package_name'', FileLispPackage file)]])
       @ [PRINT define_schema_template [(''schema_name'', this_schema_name g)], INDENT, INDENT]
       @ schema_options g
       @ [PRINT ''))\<newline>'' [], OUTDENT, OUTDENT]
       @ declarations file
       @ [PRINT register_template
            [(''file_name'', file_name file), (''schema_name'', this_schema_name g)]]
       @ export_statements (FileLispPackage file) (this_schema_name g # type_exports file)
           (rpc_exports_of file)"
  unfolding GenerateSource_def Let_def GenerateSource_header_calls
    GenerateSource_declare_packages_calls GenerateSource_schema_calls
    GenerateSource_definitions_calls [OF assms] GenerateSource_register_calls
    GenerateSource_exports_calls
  by (simp add: FileGenerator_Inr [OF assms])

lemma prints_simps:
  "prints t [] = []"
  "prints t (c # cs) = printed_with t c @ prints t cs"
  "prints t (xs @ ys) = prints t xs @ prints t ys"
  by (simp_all add: prints_def)

lemma raw_prints_simps:
  "raw_prints [] = []"
  "raw_prints (c # cs) = printed_raw c @ raw_prints cs"
  "raw_prints (xs @ ys) = raw_prints xs @ raw_prints ys"
  by (simp_all add: raw_prints_def)

lemma prints_import_items:
  "sep \<noteq> t \<Longrightarrow> ''\<newline>          '' \<noteq> t \<Longrightarrow> import_template \<noteq> t \<Longrightarrow>
   prints t (import_items sep ds) = []"
  by (induction ds arbitrary: sep) (simp_all add: prints_simps)

lemma prints_import_template:
  "sep \<noteq> import_template \<Longrightarrow>
   prints import_template (import_items sep ds) = map (\<lambda>d. [(''import'', d)]) ds"
  by (induction ds arbitrary: sep) (simp_all add: prints_simps)

lemma prints_export_items:
  "sep \<noteq> t \<Longrightarrow> ''\<newline>             '' \<noteq> t \<Longrightarrow> prints t (export_items sep es) = []"
  by (induction es arbitrary: sep) (simp_all add: prints_simps)

lemma raw_prints_import_items: "raw_prints (import_items sep ds) = []"
  by (induction ds arbitrary: sep) (simp_all add: raw_prints_simps)

lemma raw_prints_export_items: "raw_prints (export_items sep es) = es"
  by (induction es arbitrary: sep) (simp_all add: raw_prints_simps)

lemma prints_map_defpackage:
  "prints t (map (\<lambda>package. PRINT defpackage_template [(''package_name'', package)]) packages)
   = (if t = defpackage_template then map (\<lambda>package. [(''package_name'', package)]) packages
      else [])"
  by (induction packages) (simp_all add: prints_simps)

lemma raw_prints_map_defpackage:
  "raw_prints (map (\<lambda>package. PRINT defpackage_template [(''package_name'', package)]) packages)
   = []"
  by (induction packages) (simp_all add: raw_prints_simps)

lemma prints_map_generate:
  "prints t (map (\<lambda>d. GENERATE_ENUM (EnumGenerator d)) es) = []"
  "prints t (map (\<lambda>d. GENERATE_MESSAGE (MessageGenerator d)) ms) = []"
  "prints t (map (\<lambda>x. GENERATE_EXTENSION x file) xs) = []"
  "prints t (map (\<lambda>d. GENERATE_SERVICE (ServiceGenerator d)) ss) = []"
  by (induction es, simp_all add: prints_simps)
     (induction ms, simp_all add: prints_simps,
      induction xs, simp_all add: prints_simps,
      induction ss, simp_all add: prints_simps)

lemma raw_prints_map_generate:
  "raw_prints (map (\<lambda>d. GENERATE_ENUM (EnumGenerator d)) es) = []"
  "raw_prints (map (\<lambda>d. GENERATE_MESSAGE (MessageGenerator d)) ms) = []"
  "raw_prints (map (\<lambda>x. GENERATE_EXTENSION x file) xs) = []"
  "raw_prints (map (\<lambda>d. GENERATE_SERVICE (ServiceGenerator d)) ss) = []"
  by (induction es, simp_all add: raw_prints_simps)
     (induction ms, simp_all add: raw_prints_simps,
      induction xs, simp_all add: raw_prints_simps,
      induction ss, simp_all add: raw_prints_simps)

lemma prints_declarations:
  "t \<noteq> ''\<newline>;; Top-Level enums.'' \<Longrightarrow> t \<noteq> ''\<newline>;; Top-Level messages.'' \<Longrightarrow>
   t \<noteq> ''\<newline>;; Top-Level extensions.'' \<Longrightarrow> t \<noteq> ''\<newline>;; Services.'' \<Longrightarrow>
   prints t (declarations file) = []"
  by (simp add: declarations_def prints_simps prints_map_generate)

lemma raw_prints_declarations: "raw_prints (declarations file) = []"
  by (simp add: declarations_def raw_prints_simps raw_prints_map_generate)

lemma raw_prints_schema_options: "raw_prints (schema_options g) = []"
  by (simp add: schema_options_def raw_prints_simps raw_prints_import_items)

lemma raw_prints_export_statement: "raw_prints (export_statement es) = es"
  by (simp add: export_statement_def raw_prints_simps raw_prints_export_items)

lemma filter_is_declaration:
  "filter is_declaration (import_items sep ds) = []"
  "filter is_declaration (export_items sep es) = []"
  by (induction ds arbitrary: sep, simp_all) (induction es arbitrary: sep, simp_all)


section \<open>The generators of the example files\<close>

lemma addressbook_generated:
  "FileGenerator tutorial_package addressbook = Inr addressbook_generator"
  by code_simp

lemma empty_generated:
  "FileGenerator tutorial_package empty_file = Inr empty_generator"
  by code_simp

lemma echo_generated:
  "FileGenerator no_lisp_package echo_file = Inr echo_generator"
  by code_simp

lemma envelope_generated:
  "FileGenerator tutorial_package envelope_file = Inr envelope_generator"
  by code_simp


section \<open>What the whole sequence of calls prints\<close>

lemma GenerateSource_append:
  assumes "FileGenerator FileLispPackage file = Inr g"
  shows "GenerateSource g p = p @ GenerateSource g []"
  by (simp add: GenerateSource_calls [OF assms, of p] GenerateSource_calls [OF assms, of "[]"])

lemma prints_defpackage_GenerateSource:
  assumes "FileGenerator FileLispPackage file = Inr g"
  shows "prints defpackage_template (GenerateSource g []) =
           map (\<lambda>package. [(''package_name'', package)]) (GenerateSource_packages g)"
  by (simp add: GenerateSource_calls [OF assms] prints_simps prints_map_defpackage
        prints_declarations schema_options_def prints_import_items export_statements_def
        export_statement_def prints_export_items)

lemma declared_packages_GenerateSource:
  assumes "FileGenerator FileLispPackage file = Inr g"
  shows "declared_packages (GenerateSource g []) = GenerateSource_packages g"
  by (simp add: declared_packages_def prints_defpackage_GenerateSource [OF assms] comp_def)

lemma prints_in_package_GenerateSource:
  assumes "FileGenerator FileLispPackage file = Inr g"
  shows "prints in_package_template (GenerateSource g []) =
           (if FileLispPackage file = [] then []
            else [(''package_name'', FileLispPackage file)]
                 # (if rpc_exports_of file = [] then []
                    else [[(''package_name'', FileLispPackage file @ ''-RPC'')]]))"
  by (simp add: GenerateSource_calls [OF assms] prints_simps prints_map_defpackage
        prints_declarations schema_options_def prints_import_items export_statements_def
        export_statement_def prints_export_items)

lemma prints_export_open_GenerateSource:
  assumes "FileGenerator FileLispPackage file = Inr g"
  shows "prints export_open (GenerateSource g []) =
           (if FileLispPackage file = [] then []
            else [] # (if rpc_exports_of file = [] then [] else [[]]))"
  by (simp add: GenerateSource_calls [OF assms] prints_simps prints_map_defpackage
        prints_declarations schema_options_def prints_import_items export_statements_def
        export_statement_def prints_export_items)


lemma raw_prints_GenerateSource:
  assumes "FileGenerator FileLispPackage file = Inr g"
  shows "raw_prints (GenerateSource g []) =
           (if FileLispPackage file = [] then []
            else this_schema_name g # type_exports file @ rpc_exports_of file)"
  by (simp add: GenerateSource_calls [OF assms] raw_prints_simps raw_prints_map_defpackage
        raw_prints_declarations raw_prints_schema_options export_statements_def
        raw_prints_export_statement)

lemma no_services_no_rpc_exports: "service_count file = 0 \<Longrightarrow> rpc_exports_of file = []"
  by (simp add: service_count_def rpc_exports_of_def)


section \<open>The claims\<close>

text \<open>
  C1. For every schema file, \<^verbatim>\<open>GenerateSource\<close> emits the declarations in the order
  enums, messages, extensions, services, each group in the order of the descriptor. The
  exports it collects are the schema name followed by the symbols of each enum, message
  and service in that order, and the RPC exports are the RPC symbols of each service.
\<close>

theorem GenerateSource_declaration_order:
  assumes "FileGenerator FileLispPackage file = Inr g"
  shows "filter is_declaration (GenerateSource g []) =
           map (\<lambda>d. GENERATE_ENUM (EnumGenerator d)) (file_enum_type file)
           @ map (\<lambda>d. GENERATE_MESSAGE (MessageGenerator d)) (file_message_type file)
           @ map (\<lambda>x. GENERATE_EXTENSION x file) (file_extension file)
           @ map (\<lambda>d. GENERATE_SERVICE (ServiceGenerator d)) (file_service file)
         \<and> snd (GenerateSource_definitions g printer) =
             (this_schema_name g
                # concat (map enum_symbols (file_enum_type file))
                @ concat (map message_symbols (file_message_type file))
                @ concat (map service_symbols (file_service file)),
              concat (map service_rpc_symbols (file_service file)))"
proof -
  have "filter is_declaration (declarations file) =
           map (\<lambda>d. GENERATE_ENUM (EnumGenerator d)) (file_enum_type file)
           @ map (\<lambda>d. GENERATE_MESSAGE (MessageGenerator d)) (file_message_type file)
           @ map (\<lambda>x. GENERATE_EXTENSION x file) (file_extension file)
           @ map (\<lambda>d. GENERATE_SERVICE (ServiceGenerator d)) (file_service file)"
    by (simp add: declarations_def filter_map comp_def)
  moreover have "filter is_declaration (schema_options g) = []"
    by (simp add: schema_options_def filter_is_declaration)
  moreover have "filter is_declaration (export_statements l ex rpc) = []" for l ex rpc
    by (simp add: export_statements_def export_statement_def filter_is_declaration)
  ultimately have "filter is_declaration (GenerateSource g []) =
           map (\<lambda>d. GENERATE_ENUM (EnumGenerator d)) (file_enum_type file)
           @ map (\<lambda>d. GENERATE_MESSAGE (MessageGenerator d)) (file_message_type file)
           @ map (\<lambda>x. GENERATE_EXTENSION x file) (file_extension file)
           @ map (\<lambda>d. GENERATE_SERVICE (ServiceGenerator d)) (file_service file)"
    by (simp add: GenerateSource_calls [OF assms] filter_map comp_def)
  then show ?thesis
    by (simp add: GenerateSource_definitions_calls [OF assms] type_exports_def
          rpc_exports_of_def)
qed

theorem GenerateSource_declaration_order_witness:
  "FileGenerator tutorial_package addressbook = Inr addressbook_generator
   \<and> filter is_declaration (GenerateSource addressbook_generator []) =
       [GENERATE_ENUM (EnumGenerator phone_type), GENERATE_MESSAGE (MessageGenerator person),
        GENERATE_SERVICE (ServiceGenerator lookup)]
   \<and> snd (GenerateSource_definitions addressbook_generator []) =
       ([''addressbook'', ''PHONE-TYPE'', ''PHONE-TYPE-INT-TO-KEYWORD'', ''PERSON'',
         ''PHONE-NUMBER'', ''LOOKUP''],
        [''CALL-FIND'', ''FIND''])"
proof -
  have "file_enum_type addressbook = [phone_type]"
    and "file_message_type addressbook = [person]"
    and "file_extension addressbook = []"
    and "file_service addressbook = [lookup]"
    and "this_schema_name addressbook_generator = ''addressbook''"
    by (simp_all add: addressbook_def addressbook_generator_def)
  then show ?thesis
    using GenerateSource_declaration_order [OF addressbook_generated, of "[]"]
    by (simp add: addressbook_generated phone_type_def person_def lookup_def)
qed

text \<open>
  C2. The constructor aborts with a fatal error when the syntax of the file is unknown.
  For a proto2 file it leaves a generator whose syntax tag is \<^verbatim>\<open>:proto2\<close>, for a
  proto3 file one whose tag is \<^verbatim>\<open>:proto3\<close>.
\<close>

theorem FileGenerator_syntax:
  "(file_syntax file = SYNTAX_UNKNOWN \<longrightarrow>
      FileGenerator FileLispPackage file =
        Inl (FATAL (''Unknown syntax for file: '' @ file_DebugString file)))
   \<and> (file_syntax file = SYNTAX_PROTO2 \<longrightarrow>
        (\<exists>g. FileGenerator FileLispPackage file = Inr g \<and> this_syntax g = '':proto2''))
   \<and> (file_syntax file = SYNTAX_PROTO3 \<longrightarrow>
        (\<exists>g. FileGenerator FileLispPackage file = Inr g \<and> this_syntax g = '':proto3''))"
proof (cases "file_syntax file")
  case SYNTAX_UNKNOWN
  then show ?thesis
    by (simp add: FileGenerator_def Let_def)
next
  case SYNTAX_PROTO2
  then show ?thesis
    by (simp add: FileGenerator_def Let_def)
next
  case SYNTAX_PROTO3
  then show ?thesis
    by (simp add: FileGenerator_def Let_def)
qed

theorem FileGenerator_syntax_witness:
  "file_syntax unknown_file = SYNTAX_UNKNOWN
   \<and> FileGenerator tutorial_package unknown_file =
       Inl (FATAL ''Unknown syntax for file: package unknown;'')
   \<and> file_syntax empty_file = SYNTAX_PROTO2
   \<and> (\<exists>g. FileGenerator tutorial_package empty_file = Inr g \<and> this_syntax g = '':proto2'')
   \<and> file_syntax addressbook = SYNTAX_PROTO3
   \<and> (\<exists>g. FileGenerator tutorial_package addressbook = Inr g \<and> this_syntax g = '':proto3'')"
proof -
  have unknown: "file_syntax unknown_file = SYNTAX_UNKNOWN"
    and proto2: "file_syntax empty_file = SYNTAX_PROTO2"
    and proto3: "file_syntax addressbook = SYNTAX_PROTO3"
    by (simp_all add: unknown_file_def empty_file_def addressbook_def)
  have "file_DebugString unknown_file = ''package unknown;''"
    by (simp add: unknown_file_def)
  with unknown proto2 proto3 show ?thesis
    using FileGenerator_syntax [of unknown_file tutorial_package]
      FileGenerator_syntax [of empty_file tutorial_package]
      FileGenerator_syntax [of addressbook tutorial_package]
    by simp
qed


text \<open>
  C3, as amended. The packages declared are the package of the file when it is not
  empty, the RPC package when moreover the file has a service, and the packages of the
  messages. Each is declared once and the declarations are in ascending lexicographic
  order, so that the sequence depends on the set alone and not on the order of
  insertion.
\<close>

theorem GenerateSource_declared_packages:
  assumes "FileGenerator FileLispPackage file = Inr g"
  shows "set (declared_packages (GenerateSource g [])) = file_packages FileLispPackage file
         \<and> sorted (declared_packages (GenerateSource g []))
         \<and> distinct (declared_packages (GenerateSource g []))
         \<and> declared_packages (GenerateSource g []) =
             sorted_list_of_set (file_packages FileLispPackage file)"
proof -
  note packages = GenerateSource_packages_set [OF assms]
  have "sorted_list_of_set (set (GenerateSource_packages g)) = GenerateSource_packages g"
    using packages(2,3) by (rule sorted_list_of_set.idem_if_sorted_distinct)
  with packages show ?thesis
    by (simp add: declared_packages_GenerateSource [OF assms])
qed

theorem GenerateSource_declared_packages_witness:
  "FileGenerator tutorial_package addressbook = Inr addressbook_generator
   \<and> declared_packages (GenerateSource addressbook_generator []) =
       [''CL-PROTOBUFS.COMMON'', ''CL-PROTOBUFS.GOOGLE.PROTOBUF'', ''CL-PROTOBUFS.TUTORIAL'',
        ''CL-PROTOBUFS.TUTORIAL-RPC'']"
proof -
  have "sorted_list_of_set (file_packages tutorial_package addressbook) =
      [''CL-PROTOBUFS.COMMON'', ''CL-PROTOBUFS.GOOGLE.PROTOBUF'', ''CL-PROTOBUFS.TUTORIAL'',
       ''CL-PROTOBUFS.TUTORIAL-RPC'']"
    by code_simp
  then show ?thesis
    using GenerateSource_declared_packages [OF addressbook_generated]
    by (simp add: addressbook_generated)
qed

text \<open>
  C3, as stated, has the RPC package declared whenever the file has a service. A file
  with a service and no Lisp package declares no package at all.
\<close>

theorem GenerateSource_declared_packages_counterexample:
  "FileGenerator no_lisp_package echo_file = Inr echo_generator
   \<and> service_count echo_file > 0
   \<and> declared_packages (GenerateSource echo_generator []) = []
   \<and> ''-RPC'' \<in> file_packages_by_service no_lisp_package echo_file
   \<and> set (declared_packages (GenerateSource echo_generator []))
       \<noteq> file_packages_by_service no_lisp_package echo_file"
proof -
  have declared: "declared_packages (GenerateSource echo_generator []) = []"
    by code_simp
  have count: "service_count echo_file > 0"
    by (simp add: service_count_def echo_file_def)
  then have "''-RPC'' \<in> file_packages_by_service no_lisp_package echo_file"
    by (simp add: file_packages_by_service_def no_lisp_package_def)
  with declared count show ?thesis
    by (auto simp: echo_generated)
qed

text \<open>
  C4. For a file without enums, messages, extensions and services the calls are the
  file comment, the package declaration and \<^verbatim>\<open>in-package\<close> for the package of the
  file (when it is not empty), the schema with its options, the registration, and (when
  the package is not empty) one export statement, which holds the schema name. There is
  no export statement without a symbol.
\<close>

theorem GenerateSource_empty_file:
  assumes "FileGenerator FileLispPackage file = Inr g"
    and "file_enum_type file = []" and "file_message_type file = []"
    and "file_extension file = []" and "file_service file = []"
  shows "GenerateSource g [] =
     [PRINT '';;; $file_name$.lisp\<newline>;;;\<newline>;;; Generated by the protocol buffer compiler. DO NOT EDIT!\<newline>''
        [(''file_name'', file_name file)],
      PRINT ''\<newline>(cl:in-package #:common-lisp-user)\<newline>'' [],
      PRINT declaim_template []]
     @ (if FileLispPackage file = [] then []
        else [PRINT defpackage_template [(''package_name'', FileLispPackage file)],
              PRINT in_package_template [(''package_name'', FileLispPackage file)]])
     @ [PRINT define_schema_template [(''schema_name'', this_schema_name g)], INDENT, INDENT]
     @ schema_options g
     @ [PRINT ''))\<newline>'' [], OUTDENT, OUTDENT,
        PRINT register_template
          [(''file_name'', file_name file), (''schema_name'', this_schema_name g)]]
     @ (if FileLispPackage file = [] then []
        else [PRINT export_open [], PRINT ''('' [], PRINT_RAW (this_schema_name g),
              PRINT ''))\<newline>'' []])"
proof -
  from assms have "GenerateSource_packages g =
      (if FileLispPackage file = [] then [] else [FileLispPackage file])"
    by (simp add: GenerateSource_packages_def GenerateSource_own_packages_def Let_def
          message_type_count_def service_count_def set_insert_def
          FileGenerator_Inr [OF assms(1)])
  moreover from assms have "declarations file = []"
    and "type_exports file = []" and "rpc_exports_of file = []"
    by (simp_all add: declarations_def type_exports_def rpc_exports_of_def)
  ultimately show ?thesis
    by (simp add: GenerateSource_calls [OF assms(1)] export_statements_def
          export_statement_def)
qed

theorem GenerateSource_empty_file_witness:
  "FileGenerator tutorial_package empty_file = Inr empty_generator
   \<and> file_enum_type empty_file = [] \<and> file_message_type empty_file = []
   \<and> file_extension empty_file = [] \<and> file_service empty_file = []
   \<and> GenerateSource empty_generator [] =
     [PRINT '';;; $file_name$.lisp\<newline>;;;\<newline>;;; Generated by the protocol buffer compiler. DO NOT EDIT!\<newline>''
        [(''file_name'', ''empty.proto'')],
      PRINT ''\<newline>(cl:in-package #:common-lisp-user)\<newline>'' [],
      PRINT declaim_template [],
      PRINT defpackage_template [(''package_name'', ''CL-PROTOBUFS.TUTORIAL'')],
      PRINT in_package_template [(''package_name'', ''CL-PROTOBUFS.TUTORIAL'')],
      PRINT define_schema_template [(''schema_name'', ''empty'')], INDENT, INDENT,
      PRINT syntax_template [(''syntax'', '':proto2'')],
      PRINT ''))\<newline>'' [], OUTDENT, OUTDENT,
      PRINT register_template [(''file_name'', ''empty.proto''), (''schema_name'', ''empty'')],
      PRINT export_open [], PRINT ''('' [], PRINT_RAW ''empty'', PRINT ''))\<newline>'' []]"
proof -
  have empty: "file_enum_type empty_file = []" "file_message_type empty_file = []"
    "file_extension empty_file = []" "file_service empty_file = []"
    by (simp_all add: empty_file_def)
  have "file_name empty_file = ''empty.proto''" and "file_package empty_file = []"
    and "file_dependency empty_file = []"
    by (simp_all add: empty_file_def)
  moreover have "this_schema_name empty_generator = ''empty''"
    and "this_syntax empty_generator = '':proto2''"
    and "this_file empty_generator = empty_file"
    by (simp_all add: empty_generator_def)
  ultimately show ?thesis
    using GenerateSource_empty_file [OF empty_generated empty]
    by (simp add: empty_generated empty tutorial_package_def schema_options_def)
qed

text \<open>
  C5. The schema name of a generator is the base name of the path of its file (what
  follows the last forward slash or backslash) without what the last period starts, in
  lower case.
\<close>

theorem FileGenerator_schema_name:
  assumes "FileGenerator FileLispPackage file = Inr g"
  shows "this_schema_name g = normalized_schema_name (file_name file)"
proof -
  from assms have "this_schema_name g =
      StrToLower (case rfind (case find_last_of (file_name file) [CHR 0x5C, CHR ''/''] of
                                Some slash \<Rightarrow> erase (file_name file) 0 (slash + 1)
                              | None \<Rightarrow> file_name file) (CHR ''.'') of
                    Some period \<Rightarrow>
                      erase_from (case find_last_of (file_name file) [CHR 0x5C, CHR ''/''] of
                                    Some slash \<Rightarrow> erase (file_name file) 0 (slash + 1)
                                  | None \<Rightarrow> file_name file) period
                  | None \<Rightarrow> (case find_last_of (file_name file) [CHR 0x5C, CHR ''/''] of
                                Some slash \<Rightarrow> erase (file_name file) 0 (slash + 1)
                              | None \<Rightarrow> file_name file))"
    by (auto simp: FileGenerator_def Let_def split: Syntax.splits)
  then show ?thesis
    by (simp only: erase_slash erase_period normalized_schema_name_def)
qed

theorem FileGenerator_schema_name_witness:
  "FileGenerator no_lisp_package echo_file = Inr echo_generator
   \<and> file_name echo_file = ''C:'' @ [CHR 0x5C] @ ''rpc.v1/protos'' @ [CHR 0x5C] @ ''Echo.Service.PROTO''
   \<and> this_schema_name echo_generator = ''echo.service''
   \<and> normalized_schema_name (file_name echo_file) = ''echo.service''
   \<and> FileGenerator tutorial_package addressbook = Inr addressbook_generator
   \<and> file_name addressbook = ''protos/AddressBook.proto''
   \<and> normalized_schema_name (file_name addressbook) = ''addressbook''"
proof -
  have "this_schema_name echo_generator = ''echo.service''"
    and "this_schema_name addressbook_generator = ''addressbook''"
    and "file_name echo_file =
           ''C:'' @ [CHR 0x5C] @ ''rpc.v1/protos'' @ [CHR 0x5C] @ ''Echo.Service.PROTO''"
    and "file_name addressbook = ''protos/AddressBook.proto''"
    by (simp_all add: echo_generator_def addressbook_generator_def echo_file_def
          addressbook_def)
  then show ?thesis
    using FileGenerator_schema_name [OF echo_generated]
      FileGenerator_schema_name [OF addressbook_generated]
    by (simp add: echo_generated addressbook_generated)
qed


text \<open>
  C6. The schema block prints the syntax tag once, whatever the file. It prints a
  \<^verbatim>\<open>:package\<close> clause, with the package of the file, exactly when that package is not
  empty; and an \<^verbatim>\<open>:import\<close> clause exactly when the file has a dependency, and then
  the names of the dependencies in the order of the descriptor.
\<close>

theorem GenerateSource_schema_options:
  assumes "FileGenerator FileLispPackage file = Inr g"
  shows "prints syntax_template (GenerateSource_schema g []) = [[(''syntax'', this_syntax g)]]
         \<and> this_syntax g = (if file_syntax file = SYNTAX_PROTO2 then '':proto2'' else '':proto3'')
         \<and> prints package_template (GenerateSource_schema g []) =
             (if file_package file = [] then [] else [[(''pck'', file_package file)]])
         \<and> prints import_open (GenerateSource_schema g []) =
             (if dependency_count file > 0 then [[]] else [])
         \<and> imported_names (GenerateSource_schema g []) = file_dependency file
         \<and> (\<exists>before after. GenerateSource g [] = before @ GenerateSource_schema g [] @ after)"
proof -
  have "this_syntax g = (if file_syntax file = SYNTAX_PROTO2 then '':proto2'' else '':proto3'')"
    using assms by (auto simp: FileGenerator_def Let_def split: Syntax.splits)
  moreover have "concat (map (\<lambda>d. [(''import'', d)]) ds) = map (\<lambda>d. (''import'', d)) ds"
    for ds :: "string list"
    by (induction ds) simp_all
  moreover have "\<exists>before after. GenerateSource g [] = before @ GenerateSource_schema g [] @ after"
  proof (intro exI)
    show "GenerateSource g [] =
        ([PRINT '';;; $file_name$.lisp\<newline>;;;\<newline>;;; Generated by the protocol buffer compiler. DO NOT EDIT!\<newline>''
            [(''file_name'', file_name file)],
          PRINT ''\<newline>(cl:in-package #:common-lisp-user)\<newline>'' [],
          PRINT declaim_template []]
         @ map (\<lambda>package. PRINT defpackage_template [(''package_name'', package)])
             (GenerateSource_packages g)
         @ (if FileLispPackage file = [] then []
            else [PRINT in_package_template [(''package_name'', FileLispPackage file)]]))
        @ GenerateSource_schema g []
        @ (declarations file
           @ [PRINT register_template
                [(''file_name'', file_name file), (''schema_name'', this_schema_name g)]]
           @ export_statements (FileLispPackage file) (this_schema_name g # type_exports file)
               (rpc_exports_of file))"
      by (simp add: GenerateSource_calls [OF assms] GenerateSource_schema_calls)
  qed
  ultimately show ?thesis
    by (simp add: GenerateSource_schema_calls schema_options_def prints_simps
          prints_import_items prints_import_template imported_names_def
          dependency_count_def FileGenerator_Inr [OF assms] comp_def)
qed

theorem GenerateSource_schema_options_witness:
  "FileGenerator tutorial_package addressbook = Inr addressbook_generator
   \<and> prints syntax_template (GenerateSource_schema addressbook_generator []) =
       [[(''syntax'', '':proto3'')]]
   \<and> prints package_template (GenerateSource_schema addressbook_generator []) =
       [[(''pck'', ''tutorial'')]]
   \<and> prints import_open (GenerateSource_schema addressbook_generator []) = [[]]
   \<and> imported_names (GenerateSource_schema addressbook_generator []) =
       [''google/protobuf/timestamp.proto'', ''common.proto'']
   \<and> FileGenerator tutorial_package empty_file = Inr empty_generator
   \<and> prints syntax_template (GenerateSource_schema empty_generator []) =
       [[(''syntax'', '':proto2'')]]
   \<and> prints package_template (GenerateSource_schema empty_generator []) = []
   \<and> prints import_open (GenerateSource_schema empty_generator []) = []
   \<and> imported_names (GenerateSource_schema empty_generator []) = []"
proof -
  have "file_syntax addressbook = SYNTAX_PROTO3" and "file_package addressbook = ''tutorial''"
    and "file_dependency addressbook = [''google/protobuf/timestamp.proto'', ''common.proto'']"
    and "file_syntax empty_file = SYNTAX_PROTO2" and "file_package empty_file = []"
    and "file_dependency empty_file = []"
    by (simp_all add: addressbook_def empty_file_def)
  then show ?thesis
    using GenerateSource_schema_options [OF addressbook_generated]
      GenerateSource_schema_options [OF empty_generated]
    by (simp add: addressbook_generated empty_generated dependency_count_def)
qed

text \<open>
  C7, as amended. The generator itself inserts the RPC package (the package of the file
  with \<^verbatim>\<open>-RPC\<close> appended) into the set of packages exactly when the package of the
  file is not empty and the file has a service, and then the RPC package is declared. A
  package of that name is declared exactly when the generator has inserted it or a
  message brings in a package of that very name. When the package of the file is not
  empty, the output ends with the export statement of the types and, if there are RPC
  exports, \<^verbatim>\<open>in-package\<close> for the RPC package followed by a second export statement
  that holds the RPC exports; the RPC package has then been declared. The only
  \<^verbatim>\<open>in-package\<close> calls with a variable are the one for the package of the file and,
  after it, the one for the RPC package. Without a service nothing is printed in the
  RPC package.
\<close>

theorem GenerateSource_rpc_package:
  assumes "FileGenerator FileLispPackage file = Inr g"
  shows "(FileLispPackage file @ ''-RPC'' \<in> set (GenerateSource_own_packages g)
            \<longleftrightarrow> FileLispPackage file \<noteq> [] \<and> service_count file > 0)
         \<and> (FileLispPackage file @ ''-RPC'' \<in> set (GenerateSource_own_packages g) \<longrightarrow>
              FileLispPackage file @ ''-RPC'' \<in> set (declared_packages (GenerateSource g [])))
         \<and> (FileLispPackage file @ ''-RPC'' \<in> set (declared_packages (GenerateSource g []))
              \<longleftrightarrow> (FileLispPackage file \<noteq> [] \<and> service_count file > 0)
                  \<or> FileLispPackage file @ ''-RPC'' \<in> message_package_set file)
         \<and> (FileLispPackage file \<noteq> [] \<longrightarrow>
              (\<exists>before. GenerateSource g [] =
                    before
                    @ export_statement (this_schema_name g # type_exports file)
                    @ (if rpc_exports_of file = [] then []
                       else PRINT in_package_template
                              [(''package_name'', FileLispPackage file @ ''-RPC'')]
                            # export_statement (rpc_exports_of file)))
              \<and> prints in_package_template (GenerateSource g []) =
                  [(''package_name'', FileLispPackage file)]
                  # (if rpc_exports_of file = [] then []
                     else [[(''package_name'', FileLispPackage file @ ''-RPC'')]])
              \<and> raw_prints (GenerateSource g []) =
                  (this_schema_name g # type_exports file) @ rpc_exports_of file
              \<and> (rpc_exports_of file \<noteq> [] \<longrightarrow>
                    FileLispPackage file @ ''-RPC''
                      \<in> set (declared_packages (GenerateSource g []))))
         \<and> (service_count file = 0 \<longrightarrow>
              rpc_exports_of file = []
              \<and> [(''package_name'', FileLispPackage file @ ''-RPC'')]
                  \<notin> set (prints in_package_template (GenerateSource g [])))"
proof -
  have own: "FileLispPackage file @ ''-RPC'' \<in> set (GenerateSource_own_packages g)
               \<longleftrightarrow> FileLispPackage file \<noteq> [] \<and> service_count file > 0"
    by (auto simp: GenerateSource_own_packages_set FileGenerator_Inr [OF assms])
  have declared: "FileLispPackage file @ ''-RPC'' \<in> set (declared_packages (GenerateSource g []))
      \<longleftrightarrow> (FileLispPackage file \<noteq> [] \<and> service_count file > 0)
          \<or> FileLispPackage file @ ''-RPC'' \<in> message_package_set file"
    using GenerateSource_packages_set(1) [OF assms]
    by (auto simp: declared_packages_GenerateSource [OF assms] file_packages_def
          split: if_splits)
  have services: "rpc_exports_of file \<noteq> [] \<Longrightarrow> service_count file > 0"
    using no_services_no_rpc_exports [of "file"] by auto
  have ending: "\<exists>before. GenerateSource g [] =
        before @ export_statements (FileLispPackage file) (this_schema_name g # type_exports file)
                   (rpc_exports_of file)"
    by (subst GenerateSource_calls [OF assms]) (simp only: append_Nil append_assoc [symmetric], blast)
  from own declared ending services show ?thesis
    by (auto simp: export_statements_def prints_in_package_GenerateSource [OF assms]
          raw_prints_GenerateSource [OF assms] no_services_no_rpc_exports)
qed

theorem GenerateSource_rpc_package_witness:
  "FileGenerator tutorial_package addressbook = Inr addressbook_generator
   \<and> tutorial_package addressbook \<noteq> []
   \<and> ''CL-PROTOBUFS.TUTORIAL-RPC'' \<in> set (GenerateSource_own_packages addressbook_generator)
   \<and> service_count addressbook > 0
   \<and> rpc_exports_of addressbook \<noteq> []
   \<and> ''CL-PROTOBUFS.TUTORIAL-RPC''
       \<in> set (declared_packages (GenerateSource addressbook_generator []))
   \<and> prints in_package_template (GenerateSource addressbook_generator []) =
       [[(''package_name'', ''CL-PROTOBUFS.TUTORIAL'')],
        [(''package_name'', ''CL-PROTOBUFS.TUTORIAL-RPC'')]]
   \<and> raw_prints (GenerateSource addressbook_generator []) =
       [''addressbook'', ''PHONE-TYPE'', ''PHONE-TYPE-INT-TO-KEYWORD'', ''PERSON'',
        ''PHONE-NUMBER'', ''LOOKUP'', ''CALL-FIND'', ''FIND'']
   \<and> FileGenerator tutorial_package empty_file = Inr empty_generator
   \<and> service_count empty_file = 0
   \<and> ''CL-PROTOBUFS.TUTORIAL-RPC'' \<notin> message_package_set empty_file
   \<and> ''CL-PROTOBUFS.TUTORIAL-RPC''
       \<notin> set (declared_packages (GenerateSource empty_generator []))
   \<and> [(''package_name'', ''CL-PROTOBUFS.TUTORIAL-RPC'')]
       \<notin> set (prints in_package_template (GenerateSource empty_generator []))
   \<and> FileGenerator tutorial_package envelope_file = Inr envelope_generator
   \<and> service_count envelope_file = 0
   \<and> ''CL-PROTOBUFS.TUTORIAL-RPC'' \<in> message_package_set envelope_file
   \<and> ''CL-PROTOBUFS.TUTORIAL-RPC''
       \<in> set (declared_packages (GenerateSource envelope_generator []))"
proof -
  have own: "tutorial_package addressbook @ ''-RPC''
      \<in> set (GenerateSource_own_packages addressbook_generator)"
    by code_simp
  have counts: "service_count addressbook > 0" "service_count empty_file = 0"
    "service_count envelope_file = 0"
    by (simp_all add: service_count_def addressbook_def empty_file_def envelope_file_def)
  have messages: "''CL-PROTOBUFS.TUTORIAL-RPC'' \<notin> message_package_set empty_file"
    "''CL-PROTOBUFS.TUTORIAL-RPC'' \<in> message_package_set envelope_file"
    by (simp_all add: message_package_set_def empty_file_def envelope_file_def envelope_def)
  have "this_schema_name addressbook_generator = ''addressbook''"
    and "type_exports addressbook =
           [''PHONE-TYPE'', ''PHONE-TYPE-INT-TO-KEYWORD'', ''PERSON'', ''PHONE-NUMBER'',
            ''LOOKUP'']"
    and "rpc_exports_of addressbook = [''CALL-FIND'', ''FIND'']"
    by (simp_all add: addressbook_generator_def type_exports_def rpc_exports_of_def
          addressbook_def phone_type_def person_def lookup_def)
  with own counts messages show ?thesis
    using GenerateSource_rpc_package [OF addressbook_generated]
      GenerateSource_rpc_package [OF empty_generated]
      GenerateSource_rpc_package [OF envelope_generated]
    by (simp add: addressbook_generated empty_generated envelope_generated
          tutorial_package_def)
qed

text \<open>
  C7, as stated, has a package of the RPC name declared only when the file has a
  service, and has the accumulated RPC exports emitted in the RPC package. A file
  without a service declares a package of that name when one of its messages brings it
  in, though the generator has not inserted it. And for a file with a service and no
  Lisp package, RPC exports are accumulated and none of them is printed: no export
  statement is opened at all.
\<close>

theorem GenerateSource_rpc_package_counterexample:
  "FileGenerator tutorial_package envelope_file = Inr envelope_generator
   \<and> service_count envelope_file = 0
   \<and> tutorial_package envelope_file @ ''-RPC''
       \<notin> set (GenerateSource_own_packages envelope_generator)
   \<and> declared_packages (GenerateSource envelope_generator []) =
       [''CL-PROTOBUFS.TUTORIAL'', ''CL-PROTOBUFS.TUTORIAL-RPC'']
   \<and> tutorial_package envelope_file @ ''-RPC''
       \<in> set (declared_packages (GenerateSource envelope_generator []))
   \<and> FileGenerator no_lisp_package echo_file = Inr echo_generator
   \<and> service_count echo_file > 0
   \<and> snd (snd (GenerateSource_definitions echo_generator [])) = [''CALL-SAY'', ''SAY'']
   \<and> raw_prints (GenerateSource echo_generator []) = []
   \<and> prints export_open (GenerateSource echo_generator []) = []
   \<and> prints in_package_template (GenerateSource echo_generator []) = []
   \<and> \<not> set (snd (snd (GenerateSource_definitions echo_generator [])))
           \<subseteq> set (raw_prints (GenerateSource echo_generator []))"
proof -
  have declared: "declared_packages (GenerateSource envelope_generator []) =
      [''CL-PROTOBUFS.TUTORIAL'', ''CL-PROTOBUFS.TUTORIAL-RPC'']"
    by code_simp
  have own: "tutorial_package envelope_file @ ''-RPC''
      \<notin> set (GenerateSource_own_packages envelope_generator)"
    by code_simp
  have none: "service_count envelope_file = 0"
    by (simp add: service_count_def envelope_file_def)
  have accumulated:
    "snd (snd (GenerateSource_definitions echo_generator [])) = [''CALL-SAY'', ''SAY'']"
    by code_simp
  have printed: "raw_prints (GenerateSource echo_generator []) = []"
    "prints export_open (GenerateSource echo_generator []) = []"
    "prints in_package_template (GenerateSource echo_generator []) = []"
    by code_simp+
  have "service_count echo_file > 0"
    by (simp add: service_count_def echo_file_def)
  with declared own none accumulated printed show ?thesis
    by (simp add: echo_generated envelope_generated tutorial_package_def)
qed

text \<open>
  C9. The exports that \<^verbatim>\<open>GenerateSource\<close> collects begin with the schema name, so
  that they are never empty. When the Lisp package of the file is not empty the output
  holds an export statement whose first symbol is the schema name, also for a file
  that declares nothing.
\<close>

theorem GenerateSource_exports_schema_name:
  assumes "FileGenerator FileLispPackage file = Inr g"
  shows "fst (snd (GenerateSource_definitions g printer)) = this_schema_name g # type_exports file
         \<and> fst (snd (GenerateSource_definitions g printer)) \<noteq> []
         \<and> (FileLispPackage file \<noteq> [] \<longrightarrow>
              (\<exists>before after. GenerateSource g [] =
                 before
                 @ [PRINT export_open [], PRINT ''('' [], PRINT_RAW (this_schema_name g)]
                 @ export_items ''\<newline>             '' (type_exports file)
                 @ [PRINT ''))\<newline>'' []]
                 @ after)
              \<and> prints export_open (GenerateSource g []) \<noteq> []
              \<and> hd (raw_prints (GenerateSource g [])) = this_schema_name g)"
proof -
  have "\<exists>before. GenerateSource g [] =
        before @ export_statements (FileLispPackage file) (this_schema_name g # type_exports file)
                   (rpc_exports_of file)"
    by (subst GenerateSource_calls [OF assms]) (simp only: append_Nil append_assoc [symmetric], blast)
  then obtain before where "GenerateSource g [] =
        before @ export_statements (FileLispPackage file) (this_schema_name g # type_exports file)
                   (rpc_exports_of file)" ..
  then have "FileLispPackage file \<noteq> [] \<Longrightarrow>
      GenerateSource g [] =
        before
        @ [PRINT export_open [], PRINT ''('' [], PRINT_RAW (this_schema_name g)]
        @ export_items ''\<newline>             '' (type_exports file)
        @ [PRINT ''))\<newline>'' []]
        @ (if rpc_exports_of file = [] then []
           else PRINT in_package_template [(''package_name'', FileLispPackage file @ ''-RPC'')]
                # export_statement (rpc_exports_of file))"
    by (simp add: export_statements_def export_statement_def)
  then have "FileLispPackage file \<noteq> [] \<Longrightarrow>
      \<exists>before after. GenerateSource g [] =
        before
        @ [PRINT export_open [], PRINT ''('' [], PRINT_RAW (this_schema_name g)]
        @ export_items ''\<newline>             '' (type_exports file)
        @ [PRINT ''))\<newline>'' []]
        @ after"
    by blast
  then show ?thesis
    by (simp add: GenerateSource_definitions_calls [OF assms]
          prints_export_open_GenerateSource [OF assms] raw_prints_GenerateSource [OF assms])
qed

theorem GenerateSource_exports_schema_name_witness:
  "FileGenerator tutorial_package empty_file = Inr empty_generator
   \<and> tutorial_package empty_file \<noteq> []
   \<and> fst (snd (GenerateSource_definitions empty_generator [])) = [''empty'']
   \<and> (\<exists>before after. GenerateSource empty_generator [] =
         before
         @ [PRINT export_open [], PRINT ''('' [], PRINT_RAW ''empty'', PRINT ''))\<newline>'' []]
         @ after)
   \<and> hd (raw_prints (GenerateSource empty_generator [])) = ''empty''"
proof -
  have "tutorial_package empty_file \<noteq> []"
    by (simp add: tutorial_package_def)
  moreover have "this_schema_name empty_generator = ''empty''"
    and "type_exports empty_file = []"
    by (simp_all add: empty_generator_def type_exports_def empty_file_def)
  ultimately show ?thesis
    using GenerateSource_exports_schema_name [OF empty_generated, of "[]"]
    by (simp add: empty_generated)
qed



end
